theory Spec2Isabelle
  imports Main "HOL-Library.Word"
begin

section \<open>Replies of the transport\<close>

text \<open>
  The reply routers of \<^verbatim>\<open>ray/gcs/redis_context.cc\<close> read five fields of a hiredis
  reply: \<^verbatim>\<open>type\<close>, the pair \<^verbatim>\<open>str\<close>/\<^verbatim>\<open>len\<close> and the pair
  \<^verbatim>\<open>element\<close>/\<^verbatim>\<open>elements\<close>. The byte buffer and its length are one field here
  (\<open>None\<close> is the null pointer with length 0, \<open>Some s\<close> a buffer holding the bytes \<open>s\<close>,
  which hiredis ends with a zero byte); the element array and its count are one list.
  The tags are the \<^verbatim>\<open>REDIS_REPLY_*\<close> macros of hiredis, kept as names since only their
  being distinct matters: the five the routers compare \<^verbatim>\<open>type\<close> with, and
  \<open>REDIS_REPLY_INTEGER\<close> for a reply of any other type.
\<close>

datatype reply_type =
    REDIS_REPLY_STRING
  | REDIS_REPLY_ARRAY
  | REDIS_REPLY_INTEGER
  | REDIS_REPLY_NIL
  | REDIS_REPLY_STATUS
  | REDIS_REPLY_ERROR

datatype redisReply =
  Reply (type: reply_type) (str: "string option") (element: "redisReply list")

definition len :: "redisReply \<Rightarrow> nat" where
  "len reply = (case str reply of None \<Rightarrow> 0 | Some s \<Rightarrow> length s)"

definition elements :: "redisReply \<Rightarrow> nat" where
  "elements reply = length (element reply)"

section \<open>Failures and diagnostics\<close>

text \<open>
  What a run can end in besides returning. \<open>UNDEFINED\<close> marks a step whose behaviour
  C++ leaves undefined; the code performs no check there and prints nothing.
\<close>

datatype undefined_behaviour =
    Out_of_bounds_read
  | Null_dereference
  | Signed_overflow

text \<open>The operands streamed into a log line, in order.\<close>

datatype item =
    Text string
  | Type reply_type
  | C_str "string option"
  | Num int

datatype failure =
    FATAL "item list"
  | CHECK_failed "item list"
  | UNDEFINED undefined_behaviour

datatype severity = ERROR | WARNING

fun is_fatal :: "failure \<Rightarrow> bool" where
  "is_fatal (FATAL msg) = True"
| "is_fatal (CHECK_failed msg) = True"
| "is_fatal (UNDEFINED u) = False"

text \<open>
  Modelled from the spec: the logging macros \<^verbatim>\<open>RAY_LOG(FATAL)\<close> and
  \<^verbatim>\<open>RAY_CHECK\<close> are declared in a header that is not part of the sources at hand.
  The spec says of them that unrecoverable conditions "terminate the process with a
  diagnostic rather than returning a catchable error": a fatal log line ends the run
  with its message, and a check ends the run with its message when its condition is
  false and does nothing otherwise.
\<close>

definition RAY_LOG_FATAL :: "item list \<Rightarrow> 's \<Rightarrow> (failure \<times> 's) + 'a" where
  "RAY_LOG_FATAL msg s = Inl (FATAL msg, s)"

definition RAY_CHECK :: "bool \<Rightarrow> item list \<Rightarrow> 's \<Rightarrow> (failure \<times> 's) + 's" where
  "RAY_CHECK cond msg s = (if cond then Inr s else Inl (CHECK_failed msg, s))"

section \<open>The callback manager\<close>

text \<open>
  \<^verbatim>\<open>callbacks_\<close> (here \<open>callbacks\<close>: a name cannot end in an underscore) is an
  unordered map from \<^verbatim>\<open>int64_t\<close> to an owned callback and \<^verbatim>\<open>num_callbacks\<close>
  the next index. A callback is the caller's function from a byte string to nothing;
  its body is outside this code, so it is an opaque value here, calling it is recorded
  as an effect, and what the body does in turn is not followed.
\<close>

record 'cb RedisCallbackManager =
  callbacks :: "64 word \<rightharpoonup> 'cb"
  num_callbacks :: "64 word"

text \<open>
  \<^verbatim>\<open>add\<close>: \<^verbatim>\<open>emplace\<close> stores nothing when the key is already present; the
  post-increment of the signed counter is undefined at its largest value.
\<close>

definition RedisCallbackManager_add ::
  "'cb RedisCallbackManager \<Rightarrow> 'cb \<Rightarrow> failure + (64 word \<times> 'cb RedisCallbackManager)" where
  "RedisCallbackManager_add m function =
     (let stored =
        (case callbacks m (num_callbacks m) of
           None \<Rightarrow> (callbacks m)(num_callbacks m \<mapsto> function)
         | Some old \<Rightarrow> callbacks m)
      in if sint (num_callbacks m) = 2 ^ 63 - 1 then Inl (UNDEFINED Signed_overflow)
         else Inr (num_callbacks m,
                   m\<lparr>callbacks := stored, num_callbacks := num_callbacks m + 1\<rparr>))"

text \<open>
  \<^verbatim>\<open>get\<close> is \<^verbatim>\<open>return *callbacks_[callback_index];\<close> with no test of presence:
  for an absent key the subscript operator inserts a null owner and the dereference of
  it is undefined.
\<close>

definition RedisCallbackManager_get ::
  "'cb RedisCallbackManager \<Rightarrow> 64 word \<Rightarrow> failure + 'cb" where
  "RedisCallbackManager_get m callback_index =
     (case callbacks m callback_index of
        None \<Rightarrow> Inl (UNDEFINED Null_dereference)
      | Some function \<Rightarrow> Inr function)"

definition RedisCallbackManager_remove ::
  "'cb RedisCallbackManager \<Rightarrow> 64 word \<Rightarrow> 'cb RedisCallbackManager" where
  "RedisCallbackManager_remove m callback_index =
     m\<lparr>callbacks := (callbacks m)(callback_index := None)\<rparr>"

section \<open>The process seen by the reply routers\<close>

datatype 'cb effect =
    Invoke 'cb string
  | Log severity "item list"

record 'cb process =
  manager :: "'cb RedisCallbackManager"
  effects :: "'cb effect list"

definition RAY_LOG :: "severity \<Rightarrow> item list \<Rightarrow> 'cb process \<Rightarrow> 'cb process" where
  "RAY_LOG sev msg p = p\<lparr>effects := effects p @ [Log sev msg]\<rparr>"

definition invoke :: "'cb \<Rightarrow> string \<Rightarrow> 'cb process \<Rightarrow> 'cb process" where
  "invoke function data p = p\<lparr>effects := effects p @ [Invoke function data]\<rparr>"

fun invocations :: "'cb effect list \<Rightarrow> ('cb \<times> string) list" where
  "invocations [] = []"
| "invocations (Invoke function data # es) = (function, data) # invocations es"
| "invocations (Log sev msg # es) = invocations es"

text \<open>
  \<^verbatim>\<open>std::string(reply->str, reply->len)\<close>: the \<^verbatim>\<open>len\<close> bytes at \<^verbatim>\<open>str\<close>,
  which for the null pointer are none.
\<close>

definition std_string :: "redisReply \<Rightarrow> string" where
  "std_string reply = (case str reply of None \<Rightarrow> [] | Some s \<Rightarrow> take (len reply) s)"

text \<open>
  \<^verbatim>\<open>reply->elements - 1\<close> is a subtraction of \<^verbatim>\<open>size_t\<close>: it wraps to the
  largest value at 0.
\<close>

definition size_t_minus_1 :: "nat \<Rightarrow> nat" where
  "size_t_minus_1 n = (if n = 0 then 2 ^ 64 - 1 else n - 1)"

text \<open>\<^verbatim>\<open>reply->element[i]\<close>: a read outside the array is undefined.\<close>

definition element_at :: "redisReply \<Rightarrow> nat \<Rightarrow> failure + redisReply" where
  "element_at reply i =
     (if i < elements reply then Inr (element reply ! i)
      else Inl (UNDEFINED Out_of_bounds_read))"

text \<open>
  \<^verbatim>\<open>strcmp(s, t) == 0\<close> for a buffer \<open>s\<close> (which hiredis ends with a zero byte) and a
  literal \<open>t\<close>: the bytes before the first zero byte are compared.
\<close>

definition c_str :: "string \<Rightarrow> string" where
  "c_str s = takeWhile (\<lambda>c. c \<noteq> CHR 0x00) s"

definition strcmp_is_0 :: "string \<Rightarrow> string \<Rightarrow> bool" where
  "strcmp_is_0 s t = (c_str s = c_str t)"

section \<open>The command-path router\<close>

definition GlobalRedisCallback ::
  "'cb process \<Rightarrow> redisReply option \<Rightarrow> 64 word \<Rightarrow> (failure \<times> 'cb process) + 'cb process" where
  "GlobalRedisCallback p r privdata =
     (case r of
        None \<Rightarrow> Inr p
      | Some reply \<Rightarrow>
          (let callback_index = privdata in
           case
             (if type reply = REDIS_REPLY_NIL then Inr ([], p)
              else if type reply = REDIS_REPLY_STRING then Inr (std_string reply, p)
              else if type reply = REDIS_REPLY_ARRAY then
                (case element_at reply (size_t_minus_1 (elements reply)) of
                   Inl u \<Rightarrow> Inl (u, p)
                 | Inr reply' \<Rightarrow> Inr (std_string reply', p))
              else if type reply = REDIS_REPLY_STATUS then Inr ([], p)
              else if type reply = REDIS_REPLY_ERROR then
                Inr ([], RAY_LOG ERROR [Text ''Redis error '', C_str (str reply)] p)
              else
                RAY_LOG_FATAL [Text ''Fatal redis error of type '', Type (type reply),
                               Text '' and with string '', C_str (str reply)] p)
           of
             Inl stop \<Rightarrow> Inl stop
           | Inr (data, p') \<Rightarrow>
               (case RedisCallbackManager_get (manager p') callback_index of
                  Inl u \<Rightarrow> Inl (u, p')
                | Inr function \<Rightarrow>
                    (let p'' = invoke function data p' in
                     Inr (p''\<lparr>manager :=
                            RedisCallbackManager_remove (manager p'') callback_index\<rparr>)))))"

section \<open>The subscribe-path router\<close>

definition SubscribeRedisCallback ::
  "'cb process \<Rightarrow> redisReply option \<Rightarrow> 64 word \<Rightarrow> (failure \<times> 'cb process) + 'cb process" where
  "SubscribeRedisCallback p r privdata =
     (case r of
        None \<Rightarrow> Inr p
      | Some reply \<Rightarrow>
          (let callback_index = privdata in
           if type reply = REDIS_REPLY_ARRAY then
             (case element_at reply 0 of
                Inl u \<Rightarrow> Inl (u, p)
              | Inr message_type \<Rightarrow>
                  (case str message_type of
                     None \<Rightarrow> Inl (UNDEFINED Null_dereference, p)
                   | Some mt \<Rightarrow>
                       (case
                          (if strcmp_is_0 mt ''subscribe'' then Inr ([], p)
                           else if strcmp_is_0 mt ''message'' then
                             (case element_at reply (size_t_minus_1 (elements reply)) of
                                Inl u \<Rightarrow> Inl (u, p)
                              | Inr message \<Rightarrow>
                                  (let data = std_string message in
                                   case RAY_CHECK (data \<noteq> [])
                                          [Text ''Empty message received on subscribe channel''] p of
                                     Inl stop \<Rightarrow> Inl stop
                                   | Inr p' \<Rightarrow> Inr (data, p')))
                           else
                             RAY_LOG_FATAL [Text ''Fatal redis error during subscribe'',
                                            C_str (str message_type)] p)
                        of
                          Inl stop \<Rightarrow> Inl stop
                        | Inr (data, p') \<Rightarrow>
                            (case RedisCallbackManager_get (manager p') callback_index of
                               Inl u \<Rightarrow> Inl (u, p')
                             | Inr function \<Rightarrow> Inr (invoke function data p')))))
           else if type reply = REDIS_REPLY_ERROR then
             Inr (RAY_LOG ERROR [Text ''Redis error '', C_str (str reply)] p)
           else
             RAY_LOG_FATAL [Text ''Fatal redis error of type '', Type (type reply),
                            Text '' and with string '', C_str (str reply)] p))"

section \<open>The connection context and its collaborators\<close>

text \<open>
  Of a hiredis context (blocking or asynchronous) the code reads \<^verbatim>\<open>err\<close> and
  \<^verbatim>\<open>errstr\<close>. The three members \<^verbatim>\<open>context_\<close>, \<^verbatim>\<open>async_context_\<close> and
  \<^verbatim>\<open>subscribe_context_\<close> are pointers, \<open>None\<close> when null; \<open>trace\<close> is the sequence
  of calls the methods have made to the transport, the logger and the clock.
\<close>

record hiredis_context =
  err :: int
  errstr :: string

datatype Status = OK | RedisError string

datatype hiredis_status = REDIS_OK | REDIS_ERR

datatype which_context = On_async_context | On_subscribe_context

datatype redisCallbackFn = GlobalRedisCallback_fn | SubscribeRedisCallback_fn

text \<open>
  Modelled from the spec: the channel enumeration \<^verbatim>\<open>TablePubsub\<close> is generated code
  that is not part of the sources at hand. The spec describes it as an "enumeration
  identifying which logical table's changes are being broadcast; a reserved sentinel
  value marks pub/sub disabled for this table": the sentinel, and every other
  enumerator by its value.
\<close>

datatype TablePubsub = TablePubsub_NO_PUBLISH | TablePubsub_table int

text \<open>
  Of an identifier the code uses \<^verbatim>\<open>data()\<close>, \<^verbatim>\<open>size()\<close> and \<^verbatim>\<open>is_nil()\<close>; the
  class is declared outside these sources, so an identifier is its bytes together with
  the answer of its \<^verbatim>\<open>is_nil()\<close>.
\<close>

datatype UniqueID = UniqueID (data: string) (is_nil: bool)

definition id_size :: "UniqueID \<Rightarrow> nat" where
  "id_size u = length (data u)"

text \<open>The variadic arguments of \<^verbatim>\<open>redisAsyncCommand\<close>, as passed.\<close>

datatype vararg =
    Channel_arg TablePubsub
  | Ptr_arg string
  | Size_arg int

datatype async_call =
  AsyncCommand (on: which_context) (fn: redisCallbackFn) (privdata: "64 word")
    (format: string) (args: "vararg list")

datatype io =
    Call_redisConnect string int
  | Call_usleep nat
  | Call_RAY_LOG severity "item list"
  | Call_redisCommand string
  | Call_redisAsyncConnect string int
  | Call_redisAsyncCommand async_call

record RedisContext =
  sync_context :: "hiredis_context option"
  async_context :: "hiredis_context option"
  subscribe_context :: "hiredis_context option"
  trace :: "io list"

text \<open>
  What the transport answers: the result of the \<open>n\<close>-th \<^verbatim>\<open>redisConnect\<close> and of the
  \<open>n\<close>-th \<^verbatim>\<open>redisAsyncConnect\<close> of the run (counted from 0), the reply to the blocking
  configuration command, and the status of an asynchronous command.
\<close>

record hiredis =
  redisConnect :: "nat \<Rightarrow> hiredis_context option"
  redisCommand :: "redisReply option"
  redisAsyncConnect :: "nat \<Rightarrow> hiredis_context option"
  redisAsyncCommand :: "async_call \<Rightarrow> hiredis_status"

text \<open>The two settings \<^verbatim>\<open>Connect\<close> reads from the configuration singleton.\<close>

record RayConfig =
  redis_db_connect_retries :: int
  redis_db_connect_wait_milliseconds :: int

fun sleeps :: "io list \<Rightarrow> nat list" where
  "sleeps [] = []"
| "sleeps (Call_usleep n # t) = n # sleeps t"
| "sleeps (c # t) = sleeps t"

fun connects :: "io list \<Rightarrow> nat" where
  "connects [] = 0"
| "connects (Call_redisConnect a q # t) = Suc (connects t)"
| "connects (c # t) = connects t"

fun async_connects :: "io list \<Rightarrow> nat" where
  "async_connects [] = 0"
| "async_connects (Call_redisAsyncConnect a q # t) = Suc (async_connects t)"
| "async_connects (c # t) = async_connects t"

definition do_redisConnect :: "hiredis \<Rightarrow> string \<Rightarrow> int \<Rightarrow> RedisContext \<Rightarrow> RedisContext" where
  "do_redisConnect lib address port c =
     c\<lparr>sync_context := redisConnect lib (connects (trace c)),
       trace := trace c @ [Call_redisConnect address port]\<rparr>"

definition do_usleep :: "int \<Rightarrow> RedisContext \<Rightarrow> RedisContext" where
  "do_usleep usec c = c\<lparr>trace := trace c @ [Call_usleep (nat (usec mod 2 ^ 32))]\<rparr>"

definition do_RAY_LOG :: "severity \<Rightarrow> item list \<Rightarrow> RedisContext \<Rightarrow> RedisContext" where
  "do_RAY_LOG sev msg c = c\<lparr>trace := trace c @ [Call_RAY_LOG sev msg]\<rparr>"

text \<open>\<^verbatim>\<open>context_ == nullptr || context_->err\<close>\<close>

definition null_or_err :: "hiredis_context option \<Rightarrow> bool" where
  "null_or_err x = (case x of None \<Rightarrow> True | Some h \<Rightarrow> err h \<noteq> 0)"

section \<open>Connect\<close>

text \<open>
  The retry loop of \<^verbatim>\<open>Connect\<close>, entered after the first \<^verbatim>\<open>redisConnect\<close>.
  \<^verbatim>\<open>connection_attempts\<close> is an \<^verbatim>\<open>int\<close> compared with the configured number of
  retries; \<^verbatim>\<open>usleep\<close> takes the product as a 32-bit unsigned number.
\<close>

function Connect_loop ::
  "hiredis \<Rightarrow> RayConfig \<Rightarrow> string \<Rightarrow> int \<Rightarrow> RedisContext \<Rightarrow> int
     \<Rightarrow> (failure \<times> RedisContext) + RedisContext" where
  "Connect_loop lib cfg address port c connection_attempts =
     (if null_or_err (sync_context c) then
        (if connection_attempts \<ge> redis_db_connect_retries cfg then
           (case sync_context c of
              None \<Rightarrow> RAY_LOG_FATAL [Text ''Could not allocate redis context.''] c
            | Some h \<Rightarrow>
                if err h \<noteq> 0 then
                  RAY_LOG_FATAL [Text ''Could not establish connection to redis '',
                                 Text address, Text '':'', Num port] c
                else Inr c)
         else
           (let c1 = do_RAY_LOG WARNING [Text ''Failed to connect to Redis, retrying.''] c;
                c2 = do_usleep (redis_db_connect_wait_milliseconds cfg * 1000) c1;
                c3 = do_redisConnect lib address port c2
            in Connect_loop lib cfg address port c3 (connection_attempts + 1)))
      else Inr c)"
  by pat_completeness auto
termination
  by (relation "measure (\<lambda>(lib, cfg, address, port, c, connection_attempts).
                  nat (redis_db_connect_retries cfg - connection_attempts))") auto

definition Connect_retry ::
  "hiredis \<Rightarrow> RayConfig \<Rightarrow> string \<Rightarrow> int \<Rightarrow> RedisContext
     \<Rightarrow> (failure \<times> RedisContext) + RedisContext" where
  "Connect_retry lib cfg address port c =
     (let connection_attempts = 0 in
      Connect_loop lib cfg address port (do_redisConnect lib address port c)
        connection_attempts)"

text \<open>
  The rest of \<^verbatim>\<open>Connect\<close>: the blocking configuration command, whose failure is
  returned, and the two asynchronous connections, whose failure is fatal.
\<close>

definition do_redisAsyncConnect ::
  "hiredis \<Rightarrow> string \<Rightarrow> int \<Rightarrow> RedisContext \<Rightarrow> hiredis_context option \<times> RedisContext" where
  "do_redisAsyncConnect lib address port c =
     (redisAsyncConnect lib (async_connects (trace c)),
      c\<lparr>trace := trace c @ [Call_redisAsyncConnect address port]\<rparr>)"

definition Connect_configure ::
  "hiredis \<Rightarrow> string \<Rightarrow> int \<Rightarrow> RedisContext
     \<Rightarrow> (failure \<times> RedisContext) + (Status \<times> RedisContext)" where
  "Connect_configure lib address port c =
     (let c1 = c\<lparr>trace := trace c @
                  [Call_redisCommand ''CONFIG SET notify-keyspace-events Kl'']\<rparr>;
          reply = redisCommand lib
      in if reply = None \<or> map_option type reply = Some REDIS_REPLY_ERROR then
           (case sync_context c1 of
              None \<Rightarrow> Inl (UNDEFINED Null_dereference, c1)
            | Some h \<Rightarrow> Inr (RedisError (errstr h), c1))
         else
           (let (a, c2) = do_redisAsyncConnect lib address port c1;
                c3 = c2\<lparr>async_context := a\<rparr>
            in if null_or_err a then
                 RAY_LOG_FATAL [Text ''Could not establish connection to redis '',
                                Text address, Text '':'', Num port] c3
               else
                 (let (s, c4) = do_redisAsyncConnect lib address port c3;
                      c5 = c4\<lparr>subscribe_context := s\<rparr>
                  in if null_or_err s then
                       RAY_LOG_FATAL
                         [Text ''Could not establish subscribe connection to redis '',
                          Text address, Text '':'', Num port] c5
                     else Inr (OK, c5))))"

definition Connect ::
  "hiredis \<Rightarrow> RayConfig \<Rightarrow> string \<Rightarrow> int \<Rightarrow> RedisContext
     \<Rightarrow> (failure \<times> RedisContext) + (Status \<times> RedisContext)" where
  "Connect lib cfg address port c =
     (case Connect_retry lib cfg address port c of
        Inl stop \<Rightarrow> Inl stop
      | Inr c' \<Rightarrow> Connect_configure lib address port c')"

section \<open>RunAsync and SubscribeAsync\<close>

text \<open>
  The status is compared with \<^verbatim>\<open>REDIS_ERR\<close> and the context is read only then, for
  its \<^verbatim>\<open>errstr\<close>.
\<close>

definition do_redisAsyncCommand ::
  "hiredis \<Rightarrow> async_call \<Rightarrow> RedisContext \<Rightarrow> hiredis_status \<times> RedisContext" where
  "do_redisAsyncCommand lib call c =
     (redisAsyncCommand lib call, c\<lparr>trace := trace c @ [Call_redisAsyncCommand call]\<rparr>)"

definition RedisError_of ::
  "hiredis_context option \<Rightarrow> RedisContext \<Rightarrow> (failure \<times> RedisContext) + (Status \<times> RedisContext)" where
  "RedisError_of x c =
     (case x of
        None \<Rightarrow> Inl (UNDEFINED Null_dereference, c)
      | Some h \<Rightarrow> Inr (RedisError (errstr h), c))"

definition RunAsync ::
  "hiredis \<Rightarrow> RedisContext \<Rightarrow> string \<Rightarrow> UniqueID \<Rightarrow> string \<Rightarrow> int \<Rightarrow> TablePubsub \<Rightarrow> 64 word
     \<Rightarrow> (failure \<times> RedisContext) + (Status \<times> RedisContext)" where
  "RunAsync lib c command id' data' length' pubsub_channel callback_index =
     (if length' > 0 then
        (let redis_command = command @ '' %d %b %b'';
             (status, c1) = do_redisAsyncCommand lib
               (AsyncCommand On_async_context GlobalRedisCallback_fn callback_index
                  redis_command
                  [Channel_arg pubsub_channel, Ptr_arg (data id'), Size_arg (int (id_size id')),
                   Ptr_arg data', Size_arg length']) c
         in if status = REDIS_ERR then RedisError_of (async_context c1) c1
            else Inr (OK, c1))
      else
        (let redis_command = command @ '' %d %b'';
             (status, c1) = do_redisAsyncCommand lib
               (AsyncCommand On_async_context GlobalRedisCallback_fn callback_index
                  redis_command
                  [Channel_arg pubsub_channel, Ptr_arg (data id'), Size_arg (int (id_size id'))]) c
         in if status = REDIS_ERR then RedisError_of (async_context c1) c1
            else Inr (OK, c1)))"

definition SubscribeAsync ::
  "hiredis \<Rightarrow> RedisContext \<Rightarrow> UniqueID \<Rightarrow> TablePubsub \<Rightarrow> 64 word
     \<Rightarrow> (failure \<times> RedisContext) + (Status \<times> RedisContext)" where
  "SubscribeAsync lib c client_id pubsub_channel callback_index =
     (case RAY_CHECK (pubsub_channel \<noteq> TablePubsub_NO_PUBLISH)
             [Text ''Client requested subscribe on a table that does not support pubsub''] c of
        Inl stop \<Rightarrow> Inl stop
      | Inr c0 \<Rightarrow>
          (let (status, c1) =
                 (if is_nil client_id then
                    (let redis_command = ''SUBSCRIBE %d'' in
                     do_redisAsyncCommand lib
                       (AsyncCommand On_subscribe_context SubscribeRedisCallback_fn
                          callback_index redis_command [Channel_arg pubsub_channel]) c0)
                  else
                    (let redis_command = ''SUBSCRIBE %d:%b'' in
                     do_redisAsyncCommand lib
                       (AsyncCommand On_subscribe_context SubscribeRedisCallback_fn
                          callback_index redis_command
                          [Channel_arg pubsub_channel, Ptr_arg (data client_id),
                           Size_arg (int (id_size client_id))]) c0))
           in if status = REDIS_ERR then RedisError_of (subscribe_context c1) c1
              else Inr (OK, c1)))"

text \<open>The state a run ends in, whether it returns or stops.\<close>

fun final :: "(failure \<times> 's) + 's \<Rightarrow> 's" where
  "final (Inl (u, s)) = s"
| "final (Inr s) = s"

fun final_of :: "(failure \<times> 's) + ('r \<times> 's) \<Rightarrow> 's" where
  "final_of (Inl (u, s)) = s"
| "final_of (Inr (r, s)) = s"

section \<open>The payload a reply stands for\<close>

text \<open>
  The decoding as the design describes it for the command path, case by case: Nil gives
  the empty payload, String the exact bytes of the string, Array the bytes of the last
  element only, Status and Error the empty payload. (No payload is described for any
  other shape; the value there is not used.) The theorems compare what the router
  passes to the callback with it.
\<close>

definition decoded_payload :: "redisReply \<Rightarrow> string" where
  "decoded_payload reply =
     (case type reply of
        REDIS_REPLY_NIL \<Rightarrow> []
      | REDIS_REPLY_STRING \<Rightarrow> (case str reply of None \<Rightarrow> [] | Some s \<Rightarrow> s)
      | REDIS_REPLY_ARRAY \<Rightarrow> (case str (last (element reply)) of None \<Rightarrow> [] | Some s \<Rightarrow> s)
      | REDIS_REPLY_STATUS \<Rightarrow> []
      | REDIS_REPLY_ERROR \<Rightarrow> []
      | REDIS_REPLY_INTEGER \<Rightarrow> [])"

section \<open>Auxiliary facts\<close>

lemma std_string_bytes: "std_string reply = (case str reply of None \<Rightarrow> [] | Some s \<Rightarrow> s)"
  by (simp add: std_string_def len_def split: option.splits)

lemma element_at_last:
  "element reply \<noteq> [] \<Longrightarrow>
   element_at reply (size_t_minus_1 (elements reply)) = Inr (last (element reply))"
  by (simp add: element_at_def size_t_minus_1_def elements_def last_conv_nth)

lemma element_at_empty:
  "element reply = [] \<Longrightarrow> element_at reply i = Inl (UNDEFINED Out_of_bounds_read)"
  by (simp add: element_at_def elements_def)

lemma element_at_first:
  "element reply = e # es \<Longrightarrow> element_at reply 0 = Inr e"
  by (simp add: element_at_def elements_def)

lemma invocations_append:
  "invocations (es @ fs) = invocations es @ invocations fs"
  by (induction es rule: invocations.induct) simp_all

lemma connects_append: "connects (t @ u) = connects t + connects u"
  by (induction t rule: connects.induct) simp_all

lemma sleeps_append: "sleeps (t @ u) = sleeps t @ sleeps u"
  by (induction t rule: sleeps.induct) simp_all

section \<open>Routing of command replies\<close>

text \<open>
  C1 (as amended). For every non-null reply of one of the five legal shapes that, when
  it is an Array, has at least one element, delivered to the command-path router with a
  registered token: the router returns, the registered callback has been invoked
  exactly once more, with the decoded payload, and the token's entry is gone from the
  registry. This includes the Error reply.
\<close>

theorem GlobalRedisCallback_single_shot:
  assumes "callbacks (manager p) token = Some function"
    and "type reply \<in> {REDIS_REPLY_NIL, REDIS_REPLY_STRING, REDIS_REPLY_ARRAY,
                       REDIS_REPLY_STATUS, REDIS_REPLY_ERROR}"
    and "type reply = REDIS_REPLY_ARRAY \<Longrightarrow> element reply \<noteq> []"
  shows "\<exists>p'. GlobalRedisCallback p (Some reply) token = Inr p' \<and>
           invocations (effects p') =
             invocations (effects p) @ [(function, decoded_payload reply)] \<and>
           callbacks (manager p') token = None"
  using assms
  by (cases "type reply")
     (simp_all add: GlobalRedisCallback_def decoded_payload_def std_string_bytes
        element_at_last RedisCallbackManager_get_def RedisCallbackManager_remove_def
        invoke_def RAY_LOG_def invocations_append)

theorem GlobalRedisCallback_single_shot_witness:
  "(\<exists>p'. GlobalRedisCallback
          \<lparr>manager = \<lparr>callbacks = [7 \<mapsto> ''done''], num_callbacks = 8\<rparr>, effects = []\<rparr>
          (Some (Reply REDIS_REPLY_ERROR (Some ''ERR unknown command'') [])) 7 = Inr p' \<and>
        invocations (effects p') = [(''done'', [])] \<and>
        callbacks (manager p') 7 = None) \<and>
   (\<exists>p'. GlobalRedisCallback
          \<lparr>manager = \<lparr>callbacks = [7 \<mapsto> ''done''], num_callbacks = 8\<rparr>,
           effects = [Invoke ''earlier'' ''x'']\<rparr>
          (Some (Reply REDIS_REPLY_ARRAY None
             [Reply REDIS_REPLY_STRING (Some ''k'') [],
              Reply REDIS_REPLY_STRING (Some ''value'') []])) 7 = Inr p' \<and>
        invocations (effects p') = [(''earlier'', ''x''), (''done'', ''value'')] \<and>
        callbacks (manager p') 7 = None)"
  using
    GlobalRedisCallback_single_shot
      [of "\<lparr>manager = \<lparr>callbacks = [7 \<mapsto> ''done''], num_callbacks = 8\<rparr>, effects = []\<rparr>"
          7 "''done''" "Reply REDIS_REPLY_ERROR (Some ''ERR unknown command'') []"]
    GlobalRedisCallback_single_shot
      [of "\<lparr>manager = \<lparr>callbacks = [7 \<mapsto> ''done''], num_callbacks = 8\<rparr>,
            effects = [Invoke ''earlier'' ''x'']\<rparr>"
          7 "''done''"
          "Reply REDIS_REPLY_ARRAY None
             [Reply REDIS_REPLY_STRING (Some ''k'') [],
              Reply REDIS_REPLY_STRING (Some ''value'') []]"]
  by (simp add: decoded_payload_def)

text \<open>
  C1 as stated fails for the Array reply with no element: the token is registered and
  the shape is legal, yet the router reads \<^verbatim>\<open>element[elements - 1]\<close> outside the
  array, and neither invokes the callback nor removes the entry.
\<close>

theorem GlobalRedisCallback_empty_array_counterexample:
  "callbacks (manager \<lparr>manager = \<lparr>callbacks = [7 \<mapsto> ''done''], num_callbacks = 8\<rparr>,
                      effects = []\<rparr>) 7 = Some ''done'' \<and>
   type (Reply REDIS_REPLY_ARRAY None []) = REDIS_REPLY_ARRAY \<and>
   GlobalRedisCallback
     \<lparr>manager = \<lparr>callbacks = [7 \<mapsto> ''done''], num_callbacks = 8\<rparr>, effects = []\<rparr>
     (Some (Reply REDIS_REPLY_ARRAY None [])) 7 =
   Inl (UNDEFINED Out_of_bounds_read,
        \<lparr>manager = \<lparr>callbacks = [7 \<mapsto> ''done''], num_callbacks = 8\<rparr>, effects = []\<rparr>)"
  by (simp add: GlobalRedisCallback_def element_at_def elements_def size_t_minus_1_def)

text \<open>
  C2. On a server-side Error reply the command-path router logs the error and still
  invokes the registered callback, with the empty payload (and retires the token); the
  subscribe-path router logs the error and returns without invoking anything.
\<close>

theorem error_reply_asymmetry:
  assumes "type reply = REDIS_REPLY_ERROR"
  shows "(callbacks (manager p) token = Some function \<longrightarrow>
           GlobalRedisCallback p (Some reply) token =
             Inr \<lparr>manager = RedisCallbackManager_remove (manager p) token,
                  effects = effects p @
                    [Log ERROR [Text ''Redis error '', C_str (str reply)],
                     Invoke function []]\<rparr>) \<and>
         SubscribeRedisCallback p (Some reply) token =
           Inr (p\<lparr>effects := effects p @
                  [Log ERROR [Text ''Redis error '', C_str (str reply)]]\<rparr>)"
  using assms
  by (simp add: GlobalRedisCallback_def SubscribeRedisCallback_def RAY_LOG_def invoke_def
      RedisCallbackManager_get_def)

theorem error_reply_asymmetry_witness:
  "GlobalRedisCallback
     \<lparr>manager = \<lparr>callbacks = [3 \<mapsto> ''on_reply''], num_callbacks = 4\<rparr>, effects = []\<rparr>
     (Some (Reply REDIS_REPLY_ERROR (Some ''ERR wrong type'') [])) 3 =
   Inr \<lparr>manager = \<lparr>callbacks = Map.empty, num_callbacks = 4\<rparr>,
        effects = [Log ERROR [Text ''Redis error '', C_str (Some ''ERR wrong type'')],
                   Invoke ''on_reply'' []]\<rparr> \<and>
   SubscribeRedisCallback
     \<lparr>manager = \<lparr>callbacks = [3 \<mapsto> ''on_reply''], num_callbacks = 4\<rparr>, effects = []\<rparr>
     (Some (Reply REDIS_REPLY_ERROR (Some ''ERR wrong type'') [])) 3 =
   Inr \<lparr>manager = \<lparr>callbacks = [3 \<mapsto> ''on_reply''], num_callbacks = 4\<rparr>,
        effects = [Log ERROR [Text ''Redis error '', C_str (Some ''ERR wrong type'')]]\<rparr>"
  using error_reply_asymmetry
    [of "Reply REDIS_REPLY_ERROR (Some ''ERR wrong type'') []"
        "\<lparr>manager = \<lparr>callbacks = [3 \<mapsto> ''on_reply''], num_callbacks = 4\<rparr>, effects = []\<rparr>"
        3 "''on_reply''"]
  by (simp add: RedisCallbackManager_remove_def)

text \<open>
  C3. With a registered token, the command-path router passes to the callback: for a
  String reply with payload \<open>P\<close> exactly \<open>P\<close>; for an Array reply \<open>[e0, ..., en]\<close> the
  bytes of the last element \<open>en\<close> only; for a Nil and for a Status reply the empty
  payload.
\<close>

theorem GlobalRedisCallback_decoding:
  assumes "callbacks (manager p) token = Some function"
  shows "(type reply = REDIS_REPLY_STRING \<and> str reply = Some P \<longrightarrow>
            GlobalRedisCallback p (Some reply) token =
              Inr \<lparr>manager = RedisCallbackManager_remove (manager p) token,
                   effects = effects p @ [Invoke function P]\<rparr>) \<and>
         (type reply = REDIS_REPLY_ARRAY \<and> element reply = es @ [en] \<longrightarrow>
            GlobalRedisCallback p (Some reply) token =
              Inr \<lparr>manager = RedisCallbackManager_remove (manager p) token,
                   effects = effects p @
                     [Invoke function (case str en of None \<Rightarrow> [] | Some s \<Rightarrow> s)]\<rparr>) \<and>
         (type reply = REDIS_REPLY_NIL \<or> type reply = REDIS_REPLY_STATUS \<longrightarrow>
            GlobalRedisCallback p (Some reply) token =
              Inr \<lparr>manager = RedisCallbackManager_remove (manager p) token,
                   effects = effects p @ [Invoke function []]\<rparr>)"
proof (intro conjI impI)
  assume "type reply = REDIS_REPLY_STRING \<and> str reply = Some P"
  with assms show "GlobalRedisCallback p (Some reply) token =
      Inr \<lparr>manager = RedisCallbackManager_remove (manager p) token,
           effects = effects p @ [Invoke function P]\<rparr>"
    by (simp add: GlobalRedisCallback_def std_string_bytes RedisCallbackManager_get_def
        invoke_def)
next
  assume a: "type reply = REDIS_REPLY_ARRAY \<and> element reply = es @ [en]"
  then have "element_at reply (size_t_minus_1 (elements reply)) = Inr en"
    using element_at_last [of reply] by simp
  with a assms show "GlobalRedisCallback p (Some reply) token =
      Inr \<lparr>manager = RedisCallbackManager_remove (manager p) token,
           effects = effects p @
             [Invoke function (case str en of None \<Rightarrow> [] | Some s \<Rightarrow> s)]\<rparr>"
    by (simp add: GlobalRedisCallback_def std_string_bytes RedisCallbackManager_get_def
        invoke_def)
next
  assume "type reply = REDIS_REPLY_NIL \<or> type reply = REDIS_REPLY_STATUS"
  with assms show "GlobalRedisCallback p (Some reply) token =
      Inr \<lparr>manager = RedisCallbackManager_remove (manager p) token,
           effects = effects p @ [Invoke function []]\<rparr>"
    by (auto simp add: GlobalRedisCallback_def RedisCallbackManager_get_def invoke_def)
qed

theorem GlobalRedisCallback_decoding_witness:
  "GlobalRedisCallback
     \<lparr>manager = \<lparr>callbacks = [5 \<mapsto> ''cb''], num_callbacks = 6\<rparr>, effects = []\<rparr>
     (Some (Reply REDIS_REPLY_STRING (Some ''hello'') [])) 5 =
   Inr \<lparr>manager = \<lparr>callbacks = Map.empty, num_callbacks = 6\<rparr>,
        effects = [Invoke ''cb'' ''hello'']\<rparr> \<and>
   GlobalRedisCallback
     \<lparr>manager = \<lparr>callbacks = [5 \<mapsto> ''cb''], num_callbacks = 6\<rparr>, effects = []\<rparr>
     (Some (Reply REDIS_REPLY_ARRAY None
        [Reply REDIS_REPLY_STRING (Some ''a'') [], Reply REDIS_REPLY_STRING (Some ''zz'') []])) 5 =
   Inr \<lparr>manager = \<lparr>callbacks = Map.empty, num_callbacks = 6\<rparr>,
        effects = [Invoke ''cb'' ''zz'']\<rparr> \<and>
   GlobalRedisCallback
     \<lparr>manager = \<lparr>callbacks = [5 \<mapsto> ''cb''], num_callbacks = 6\<rparr>, effects = []\<rparr>
     (Some (Reply REDIS_REPLY_NIL None [])) 5 =
   Inr \<lparr>manager = \<lparr>callbacks = Map.empty, num_callbacks = 6\<rparr>,
        effects = [Invoke ''cb'' []]\<rparr> \<and>
   GlobalRedisCallback
     \<lparr>manager = \<lparr>callbacks = [5 \<mapsto> ''cb''], num_callbacks = 6\<rparr>, effects = []\<rparr>
     (Some (Reply REDIS_REPLY_STATUS (Some ''OK'') [])) 5 =
   Inr \<lparr>manager = \<lparr>callbacks = Map.empty, num_callbacks = 6\<rparr>,
        effects = [Invoke ''cb'' []]\<rparr>"
  using
    GlobalRedisCallback_decoding
      [of "\<lparr>manager = \<lparr>callbacks = [5 \<mapsto> ''cb''], num_callbacks = 6\<rparr>, effects = []\<rparr>"
          5 "''cb''" "Reply REDIS_REPLY_STRING (Some ''hello'') []" "''hello''"]
    GlobalRedisCallback_decoding
      [of "\<lparr>manager = \<lparr>callbacks = [5 \<mapsto> ''cb''], num_callbacks = 6\<rparr>, effects = []\<rparr>"
          5 "''cb''"
          "Reply REDIS_REPLY_ARRAY None
             [Reply REDIS_REPLY_STRING (Some ''a'') [], Reply REDIS_REPLY_STRING (Some ''zz'') []]"
          _ "[Reply REDIS_REPLY_STRING (Some ''a'') []]" "Reply REDIS_REPLY_STRING (Some ''zz'') []"]
    GlobalRedisCallback_decoding
      [of "\<lparr>manager = \<lparr>callbacks = [5 \<mapsto> ''cb''], num_callbacks = 6\<rparr>, effects = []\<rparr>"
          5 "''cb''" "Reply REDIS_REPLY_NIL None []"]
    GlobalRedisCallback_decoding
      [of "\<lparr>manager = \<lparr>callbacks = [5 \<mapsto> ''cb''], num_callbacks = 6\<rparr>, effects = []\<rparr>"
          5 "''cb''" "Reply REDIS_REPLY_STATUS (Some ''OK'') []"]
  by (simp add: RedisCallbackManager_remove_def)


section \<open>The registry's lookup\<close>

text \<open>
  C4 (as amended). For every token absent from the callback registry, the registry's
  get operation neither returns a stored callback nor a recoverable error, and it is
  not a checked fatal path either: the code tests nothing and prints no diagnostic; it
  dereferences the null entry that the subscript operator inserts, which is undefined
  behaviour.
\<close>

theorem RedisCallbackManager_get_absent:
  assumes "callbacks m token = None"
  shows "RedisCallbackManager_get m token = Inl (UNDEFINED Null_dereference) \<and>
         \<not> is_fatal (UNDEFINED Null_dereference)"
  using assms by (simp add: RedisCallbackManager_get_def)

theorem RedisCallbackManager_get_absent_witness:
  "callbacks \<lparr>callbacks = [1 \<mapsto> ''cb''], num_callbacks = 2\<rparr> 0 = None \<and>
   RedisCallbackManager_get \<lparr>callbacks = [1 \<mapsto> ''cb''], num_callbacks = 2\<rparr> 0 =
     Inl (UNDEFINED Null_dereference)"
  using RedisCallbackManager_get_absent
    [of "\<lparr>callbacks = [1 \<mapsto> ''cb''], num_callbacks = 2\<rparr>" 0]
  by simp

text \<open>
  C4 as stated fails: on the empty registry the lookup of token 0 does not end in a
  fatal diagnostic.
\<close>

theorem RedisCallbackManager_get_absent_counterexample:
  "callbacks \<lparr>callbacks = (Map.empty :: 64 word \<rightharpoonup> string), num_callbacks = 0\<rparr> 0 = None \<and>
   RedisCallbackManager_get
     \<lparr>callbacks = (Map.empty :: 64 word \<rightharpoonup> string), num_callbacks = 0\<rparr> 0 =
     Inl (UNDEFINED Null_dereference) \<and>
   \<not> is_fatal (UNDEFINED Null_dereference)"
  by (simp add: RedisCallbackManager_get_def)

section \<open>Routing of subscription replies\<close>

text \<open>
  C5. When the subscribe-path router receives an Array reply whose first element is the
  string "subscribe", it invokes the registered callback with the empty payload and
  leaves the registry as it was; and for any reply whatever (null or not, whatever the
  outcome) the registry after the router is the registry before it: no token is ever
  removed.
\<close>

theorem SubscribeRedisCallback_keeps_token:
  "(type reply = REDIS_REPLY_ARRAY \<and> element reply = e0 # es \<and>
    str e0 = Some ''subscribe'' \<and> callbacks (manager p) token = Some function \<longrightarrow>
      SubscribeRedisCallback p (Some reply) token =
        Inr (p\<lparr>effects := effects p @ [Invoke function []]\<rparr>)) \<and>
   manager (final (SubscribeRedisCallback p r token)) = manager p"
proof (intro conjI impI)
  assume a: "type reply = REDIS_REPLY_ARRAY \<and> element reply = e0 # es \<and>
    str e0 = Some ''subscribe'' \<and> callbacks (manager p) token = Some function"
  then have "element_at reply 0 = Inr e0"
    using element_at_first [of reply e0 es] by simp
  with a show "SubscribeRedisCallback p (Some reply) token =
      Inr (p\<lparr>effects := effects p @ [Invoke function []]\<rparr>)"
    by (simp add: SubscribeRedisCallback_def strcmp_is_0_def c_str_def
        RedisCallbackManager_get_def invoke_def)
next
  show "manager (final (SubscribeRedisCallback p r token)) = manager p"
    by (simp add: SubscribeRedisCallback_def RAY_CHECK_def RAY_LOG_FATAL_def RAY_LOG_def
        RedisCallbackManager_get_def invoke_def Let_def
        split: option.splits sum.splits prod.splits)
qed

theorem SubscribeRedisCallback_keeps_token_witness:
  "SubscribeRedisCallback
     \<lparr>manager = \<lparr>callbacks = [9 \<mapsto> ''on_message''], num_callbacks = 10\<rparr>, effects = []\<rparr>
     (Some (Reply REDIS_REPLY_ARRAY None
        [Reply REDIS_REPLY_STRING (Some ''subscribe'') [],
         Reply REDIS_REPLY_STRING (Some ''3'') [],
         Reply REDIS_REPLY_INTEGER None []])) 9 =
   Inr \<lparr>manager = \<lparr>callbacks = [9 \<mapsto> ''on_message''], num_callbacks = 10\<rparr>,
        effects = [Invoke ''on_message'' []]\<rparr>"
  using SubscribeRedisCallback_keeps_token
    [of "Reply REDIS_REPLY_ARRAY None
           [Reply REDIS_REPLY_STRING (Some ''subscribe'') [],
            Reply REDIS_REPLY_STRING (Some ''3'') [],
            Reply REDIS_REPLY_INTEGER None []]"
        "Reply REDIS_REPLY_STRING (Some ''subscribe'') []"
        "[Reply REDIS_REPLY_STRING (Some ''3'') [], Reply REDIS_REPLY_INTEGER None []]"
        "\<lparr>manager = \<lparr>callbacks = [9 \<mapsto> ''on_message''], num_callbacks = 10\<rparr>, effects = []\<rparr>"
        9 "''on_message''"]
  by simp

text \<open>
  C6. When the subscribe-path router receives an Array reply whose first element is the
  string "message" and whose last element holds no bytes, the check on the payload
  stops the process with its diagnostic; the process is as before the call, so the
  callback has not been invoked.
\<close>

theorem SubscribeRedisCallback_empty_message_fatal:
  assumes "type reply = REDIS_REPLY_ARRAY"
    and "element reply = e0 # es"
    and "str e0 = Some ''message''"
    and "(case str (last (element reply)) of None \<Rightarrow> [] | Some s \<Rightarrow> s) = []"
  shows "SubscribeRedisCallback p (Some reply) token =
           Inl (CHECK_failed [Text ''Empty message received on subscribe channel''], p) \<and>
         is_fatal (CHECK_failed [Text ''Empty message received on subscribe channel''])"
proof -
  have "element_at reply 0 = Inr e0"
    using assms(2) by (rule element_at_first)
  moreover have "element_at reply (size_t_minus_1 (elements reply)) = Inr (last (element reply))"
    using assms(2) by (simp add: element_at_last)
  ultimately show ?thesis
    using assms
    by (simp add: SubscribeRedisCallback_def strcmp_is_0_def c_str_def std_string_bytes
        RAY_CHECK_def)
qed

theorem SubscribeRedisCallback_empty_message_fatal_witness:
  "SubscribeRedisCallback
     \<lparr>manager = \<lparr>callbacks = [9 \<mapsto> ''on_message''], num_callbacks = 10\<rparr>, effects = []\<rparr>
     (Some (Reply REDIS_REPLY_ARRAY None
        [Reply REDIS_REPLY_STRING (Some ''message'') [],
         Reply REDIS_REPLY_STRING (Some ''3'') [],
         Reply REDIS_REPLY_STRING (Some []) []])) 9 =
   Inl (CHECK_failed [Text ''Empty message received on subscribe channel''],
        \<lparr>manager = \<lparr>callbacks = [9 \<mapsto> ''on_message''], num_callbacks = 10\<rparr>, effects = []\<rparr>)"
  using SubscribeRedisCallback_empty_message_fatal
    [of "Reply REDIS_REPLY_ARRAY None
           [Reply REDIS_REPLY_STRING (Some ''message'') [],
            Reply REDIS_REPLY_STRING (Some ''3'') [],
            Reply REDIS_REPLY_STRING (Some []) []]"
        "Reply REDIS_REPLY_STRING (Some ''message'') []"
        "[Reply REDIS_REPLY_STRING (Some ''3'') [], Reply REDIS_REPLY_STRING (Some []) []]"
        "\<lparr>manager = \<lparr>callbacks = [9 \<mapsto> ''on_message''], num_callbacks = 10\<rparr>, effects = []\<rparr>"
        9]
  by simp

text \<open>
  C10. Neither router tests an Array reply for emptiness before indexing it: for an
  Array reply, the command-path router (which reads the last element) and the
  subscribe-path router (which reads the first and the last) end in an out-of-bounds
  read exactly when the reply has no element; in particular the empty Array reply on
  the command path does not reach the fatal branch for illegal shapes.
\<close>

theorem array_reads_in_bounds_iff_nonempty:
  assumes "type reply = REDIS_REPLY_ARRAY"
  shows "(GlobalRedisCallback p (Some reply) token = Inl (UNDEFINED Out_of_bounds_read, p))
           = (element reply = []) \<and>
         (SubscribeRedisCallback p (Some reply) token = Inl (UNDEFINED Out_of_bounds_read, p))
           = (element reply = []) \<and>
         (element reply = [] \<longrightarrow>
            (\<forall>msg q. GlobalRedisCallback p (Some reply) token \<noteq> Inl (FATAL msg, q)))"
proof (cases "element reply")
  case Nil
  then show ?thesis
    using assms
    by (simp add: GlobalRedisCallback_def SubscribeRedisCallback_def element_at_empty)
next
  case (Cons e0 es)
  then have first: "element_at reply 0 = Inr e0"
    by (rule element_at_first)
  have lst: "element_at reply (size_t_minus_1 (elements reply)) = Inr (last (element reply))"
    using Cons by (simp add: element_at_last)
  have g: "GlobalRedisCallback p (Some reply) token \<noteq> Inl (UNDEFINED Out_of_bounds_read, p)"
    using assms lst
    by (simp add: GlobalRedisCallback_def RedisCallbackManager_get_def Let_def
        split: option.splits)
  have s: "SubscribeRedisCallback p (Some reply) token \<noteq> Inl (UNDEFINED Out_of_bounds_read, p)"
    using assms first lst
    by (simp add: SubscribeRedisCallback_def RedisCallbackManager_get_def RAY_CHECK_def
        RAY_LOG_FATAL_def Let_def split: option.splits)
  from g s Cons show ?thesis by simp
qed

theorem array_reads_in_bounds_iff_nonempty_witness:
  "GlobalRedisCallback
     \<lparr>manager = \<lparr>callbacks = [2 \<mapsto> ''cb''], num_callbacks = 3\<rparr>, effects = []\<rparr>
     (Some (Reply REDIS_REPLY_ARRAY None [])) 2 =
   Inl (UNDEFINED Out_of_bounds_read,
        \<lparr>manager = \<lparr>callbacks = [2 \<mapsto> ''cb''], num_callbacks = 3\<rparr>, effects = []\<rparr>) \<and>
   SubscribeRedisCallback
     \<lparr>manager = \<lparr>callbacks = [2 \<mapsto> ''cb''], num_callbacks = 3\<rparr>, effects = []\<rparr>
     (Some (Reply REDIS_REPLY_ARRAY None [])) 2 =
   Inl (UNDEFINED Out_of_bounds_read,
        \<lparr>manager = \<lparr>callbacks = [2 \<mapsto> ''cb''], num_callbacks = 3\<rparr>, effects = []\<rparr>)"
  using array_reads_in_bounds_iff_nonempty
    [of "Reply REDIS_REPLY_ARRAY None []"
        "\<lparr>manager = \<lparr>callbacks = [2 \<mapsto> ''cb''], num_callbacks = 3\<rparr>, effects = []\<rparr>" 2]
  by simp

section \<open>Connecting with retries\<close>

text \<open>
  C7. With 3 as the maximum number of retries and 100 ms as the delay, when the first
  two blocking connection attempts fail (a null context or one with an error) and the
  third succeeds, the retry phase of Connect returns with the third context after
  exactly two sleeps of 100000 microseconds, each between two attempts, and Connect
  goes on to the configuration step: the fatal exhaustion path is not taken.
\<close>

theorem Connect_third_attempt_succeeds:
  assumes "redis_db_connect_retries cfg = 3"
    and "redis_db_connect_wait_milliseconds cfg = 100"
    and "null_or_err (redisConnect lib (connects (trace c)))"
    and "null_or_err (redisConnect lib (connects (trace c) + 1))"
    and "\<not> null_or_err (redisConnect lib (connects (trace c) + 2))"
  shows "Connect_retry lib cfg address port c =
           Inr (c\<lparr>sync_context := redisConnect lib (connects (trace c) + 2),
                  trace := trace c @
                    [Call_redisConnect address port,
                     Call_RAY_LOG WARNING [Text ''Failed to connect to Redis, retrying.''],
                     Call_usleep 100000,
                     Call_redisConnect address port,
                     Call_RAY_LOG WARNING [Text ''Failed to connect to Redis, retrying.''],
                     Call_usleep 100000,
                     Call_redisConnect address port]\<rparr>) \<and>
         sleeps (trace (final (Connect_retry lib cfg address port c))) =
           sleeps (trace c) @ [100000, 100000] \<and>
         Connect lib cfg address port c =
           Connect_configure lib address port
             (c\<lparr>sync_context := redisConnect lib (connects (trace c) + 2),
                trace := trace c @
                  [Call_redisConnect address port,
                   Call_RAY_LOG WARNING [Text ''Failed to connect to Redis, retrying.''],
                   Call_usleep 100000,
                   Call_redisConnect address port,
                   Call_RAY_LOG WARNING [Text ''Failed to connect to Redis, retrying.''],
                   Call_usleep 100000,
                   Call_redisConnect address port]\<rparr>)"
proof -
  let ?w = "Call_RAY_LOG WARNING [Text ''Failed to connect to Redis, retrying.'']"
  let ?k = "Call_redisConnect address port"
  let ?n = "connects (trace c)"
  let ?c0 = "c\<lparr>sync_context := redisConnect lib ?n, trace := trace c @ [?k]\<rparr>"
  let ?c1 = "c\<lparr>sync_context := redisConnect lib (?n + 1),
                trace := trace c @ [?k, ?w, Call_usleep 100000, ?k]\<rparr>"
  let ?c2 = "c\<lparr>sync_context := redisConnect lib (?n + 2),
                trace := trace c @ [?k, ?w, Call_usleep 100000, ?k, ?w, Call_usleep 100000, ?k]\<rparr>"
  have step0: "Connect_loop lib cfg address port ?c0 0 = Connect_loop lib cfg address port ?c1 1"
    using assms(1,2,3)
    by (subst Connect_loop.simps)
       (simp add: do_RAY_LOG_def do_usleep_def do_redisConnect_def connects_append)
  have step1: "Connect_loop lib cfg address port ?c1 1 = Connect_loop lib cfg address port ?c2 2"
    using assms(1,2,4)
    by (subst Connect_loop.simps)
       (simp add: do_RAY_LOG_def do_usleep_def do_redisConnect_def connects_append)
  have step2: "Connect_loop lib cfg address port ?c2 2 = Inr ?c2"
    using assms(5)
    by (subst Connect_loop.simps) simp
  have retry: "Connect_retry lib cfg address port c = Inr ?c2"
    using step0 step1 step2 by (simp add: Connect_retry_def do_redisConnect_def)
  then show ?thesis
    by (simp add: Connect_def sleeps_append)
qed

theorem Connect_third_attempt_succeeds_witness:
  "Connect_retry
     \<lparr>redisConnect = (\<lambda>n. if n < 2 then None else Some \<lparr>err = 0, errstr = []\<rparr>),
      redisCommand = Some (Reply REDIS_REPLY_STATUS (Some ''OK'') []),
      redisAsyncConnect = (\<lambda>n. Some \<lparr>err = 0, errstr = []\<rparr>),
      redisAsyncCommand = (\<lambda>call. REDIS_OK)\<rparr>
     \<lparr>redis_db_connect_retries = 3, redis_db_connect_wait_milliseconds = 100\<rparr>
     ''127.0.0.1'' 6379
     \<lparr>sync_context = None, async_context = None, subscribe_context = None, trace = []\<rparr> =
   Inr \<lparr>sync_context = Some \<lparr>err = 0, errstr = []\<rparr>, async_context = None,
        subscribe_context = None,
        trace = [Call_redisConnect ''127.0.0.1'' 6379,
                 Call_RAY_LOG WARNING [Text ''Failed to connect to Redis, retrying.''],
                 Call_usleep 100000,
                 Call_redisConnect ''127.0.0.1'' 6379,
                 Call_RAY_LOG WARNING [Text ''Failed to connect to Redis, retrying.''],
                 Call_usleep 100000,
                 Call_redisConnect ''127.0.0.1'' 6379]\<rparr>"
  using Connect_third_attempt_succeeds
    [of "\<lparr>redis_db_connect_retries = 3, redis_db_connect_wait_milliseconds = 100\<rparr>"
        "\<lparr>redisConnect = (\<lambda>n. if n < 2 then None else Some \<lparr>err = 0, errstr = []\<rparr>),
          redisCommand = Some (Reply REDIS_REPLY_STATUS (Some ''OK'') []),
          redisAsyncConnect = (\<lambda>n. Some \<lparr>err = 0, errstr = []\<rparr>),
          redisAsyncCommand = (\<lambda>call. REDIS_OK)\<rparr>"
        "\<lparr>sync_context = None, async_context = None, subscribe_context = None, trace = []\<rparr>"
        "''127.0.0.1''" 6379]
  by (simp add: null_or_err_def)

section \<open>Dispatch\<close>

text \<open>
  C8. Every call to SubscribeAsync whose channel is the "pub/sub disabled" sentinel
  stops at the precondition check, with its diagnostic, and the trace of calls is as
  before: no subscribe request has been issued.
\<close>

theorem SubscribeAsync_no_publish_fatal:
  "SubscribeAsync lib c client_id TablePubsub_NO_PUBLISH callback_index =
     Inl (CHECK_failed
            [Text ''Client requested subscribe on a table that does not support pubsub''], c) \<and>
   trace (final_of (SubscribeAsync lib c client_id TablePubsub_NO_PUBLISH callback_index)) =
     trace c"
  by (simp add: SubscribeAsync_def RAY_CHECK_def)

theorem SubscribeAsync_no_publish_fatal_witness:
  "SubscribeAsync
     \<lparr>redisConnect = (\<lambda>n. None), redisCommand = None, redisAsyncConnect = (\<lambda>n. None),
      redisAsyncCommand = (\<lambda>call. REDIS_OK)\<rparr>
     \<lparr>sync_context = None, async_context = None,
      subscribe_context = Some \<lparr>err = 0, errstr = []\<rparr>, trace = []\<rparr>
     (UniqueID ''abcd'' False) TablePubsub_NO_PUBLISH 9 =
   Inl (CHECK_failed
          [Text ''Client requested subscribe on a table that does not support pubsub''],
        \<lparr>sync_context = None, async_context = None,
         subscribe_context = Some \<lparr>err = 0, errstr = []\<rparr>, trace = []\<rparr>)"
  using SubscribeAsync_no_publish_fatal
    [of "\<lparr>redisConnect = (\<lambda>n. None), redisCommand = None, redisAsyncConnect = (\<lambda>n. None),
          redisAsyncCommand = (\<lambda>call. REDIS_OK)\<rparr>"
        "\<lparr>sync_context = None, async_context = None,
          subscribe_context = Some \<lparr>err = 0, errstr = []\<rparr>, trace = []\<rparr>"
        "UniqueID ''abcd'' False" 9]
  by simp

text \<open>
  C9. Every call to RunAsync issues exactly one asynchronous command, on the command
  connection, with the command-path router as handler and the token itself as the
  opaque value. If the payload length is greater than zero the format has the three
  directives for channel, identifier and payload and the arguments are the channel,
  the identifier's bytes with their size and the payload with its length; otherwise
  the format has the two directives for channel and identifier and the arguments are
  the channel and the identifier's bytes with their size.
\<close>

theorem RunAsync_arguments:
  "trace (final_of (RunAsync lib c command id' data' length' pubsub_channel callback_index)) =
     trace c @
       [Call_redisAsyncCommand
          (AsyncCommand On_async_context GlobalRedisCallback_fn callback_index
             (command @ (if length' > 0 then '' %d %b %b'' else '' %d %b''))
             (if length' > 0
              then [Channel_arg pubsub_channel, Ptr_arg (data id'), Size_arg (int (id_size id')),
                    Ptr_arg data', Size_arg length']
              else [Channel_arg pubsub_channel, Ptr_arg (data id'),
                    Size_arg (int (id_size id'))]))]"
  by (simp add: RunAsync_def do_redisAsyncCommand_def RedisError_of_def Let_def
      split: option.splits)

theorem RunAsync_arguments_witness:
  "trace (final_of (RunAsync
     \<lparr>redisConnect = (\<lambda>n. None), redisCommand = None, redisAsyncConnect = (\<lambda>n. None),
      redisAsyncCommand = (\<lambda>call. REDIS_OK)\<rparr>
     \<lparr>sync_context = None, async_context = Some \<lparr>err = 0, errstr = []\<rparr>,
      subscribe_context = None, trace = []\<rparr>
     ''TABLE_ADD'' (UniqueID ''0123456789abcdef'' False) ''hello'' 5 (TablePubsub_table 5) 7)) =
   [Call_redisAsyncCommand
      (AsyncCommand On_async_context GlobalRedisCallback_fn 7 ''TABLE_ADD %d %b %b''
         [Channel_arg (TablePubsub_table 5), Ptr_arg ''0123456789abcdef'', Size_arg 16,
          Ptr_arg ''hello'', Size_arg 5])] \<and>
   trace (final_of (RunAsync
     \<lparr>redisConnect = (\<lambda>n. None), redisCommand = None, redisAsyncConnect = (\<lambda>n. None),
      redisAsyncCommand = (\<lambda>call. REDIS_ERR)\<rparr>
     \<lparr>sync_context = None, async_context = Some \<lparr>err = 0, errstr = []\<rparr>,
      subscribe_context = None, trace = []\<rparr>
     ''TABLE_LOOKUP'' (UniqueID ''0123456789abcdef'' False) [] 0 (TablePubsub_table 5) 8)) =
   [Call_redisAsyncCommand
      (AsyncCommand On_async_context GlobalRedisCallback_fn 8 ''TABLE_LOOKUP %d %b''
         [Channel_arg (TablePubsub_table 5), Ptr_arg ''0123456789abcdef'', Size_arg 16])]"
  using
    RunAsync_arguments
      [of "\<lparr>redisConnect = (\<lambda>n. None), redisCommand = None, redisAsyncConnect = (\<lambda>n. None),
            redisAsyncCommand = (\<lambda>call. REDIS_OK)\<rparr>"
          "\<lparr>sync_context = None, async_context = Some \<lparr>err = 0, errstr = []\<rparr>,
            subscribe_context = None, trace = []\<rparr>"
          "''TABLE_ADD''" "UniqueID ''0123456789abcdef'' False" "''hello''" 5
          "TablePubsub_table 5" 7]
    RunAsync_arguments
      [of "\<lparr>redisConnect = (\<lambda>n. None), redisCommand = None, redisAsyncConnect = (\<lambda>n. None),
            redisAsyncCommand = (\<lambda>call. REDIS_ERR)\<rparr>"
          "\<lparr>sync_context = None, async_context = Some \<lparr>err = 0, errstr = []\<rparr>,
            subscribe_context = None, trace = []\<rparr>"
          "''TABLE_LOOKUP''" "UniqueID ''0123456789abcdef'' False" "[]" 0
          "TablePubsub_table 5" 8]
  by (simp add: id_size_def)

end
